theory Spec2Isabelle
  imports Main "HOL-Library.Log_Nat"
begin

section \<open>JavaScript strings\<close>

text \<open>
  A JavaScript string is a sequence of UTF-16 code units. A code unit is modelled as a
  natural number, so that the Unicode minus sign (U+2212) and the Unicode white space the
  source's \<^verbatim>\<open>\s\<close> and \<^verbatim>\<open>trim()\<close> recognise are single elements, as they are in the source.
  \<open>lit\<close> turns an ASCII literal of the theory into such a string.
\<close>

type_synonym ustring = "nat list"

definition lit :: "string \<Rightarrow> ustring" where
  "lit s = map of_char s"

text \<open>White space and line terminators of ECMAScript (the set of \<^verbatim>\<open>\s\<close> and of \<^verbatim>\<open>trim\<close>).\<close>

definition isWhiteSpace :: "nat \<Rightarrow> bool" where
  "isWhiteSpace c \<longleftrightarrow>
     c \<in> {9, 10, 11, 12, 13, 32, 160, 5760, 8232, 8233, 8239, 8287, 12288, 65279}
     \<or> (8192 \<le> c \<and> c \<le> 8202)"

definition isDigit :: "nat \<Rightarrow> bool" where
  "isDigit c \<longleftrightarrow> 48 \<le> c \<and> c \<le> 57"

definition isUpper :: "nat \<Rightarrow> bool" where
  "isUpper c \<longleftrightarrow> 65 \<le> c \<and> c \<le> 90"

definition isLower :: "nat \<Rightarrow> bool" where
  "isLower c \<longleftrightarrow> 97 \<le> c \<and> c \<le> 122"

text \<open>\<^verbatim>\<open>\w\<close> of a regular expression without the unicode flag: \<^verbatim>\<open>[A-Za-z0-9_]\<close>.\<close>

definition isWordChar :: "nat \<Rightarrow> bool" where
  "isWordChar c \<longleftrightarrow> isUpper c \<or> isLower c \<or> isDigit c \<or> c = 95"

text \<open>\<^verbatim>\<open>String.prototype.trim\<close>.\<close>

definition trim :: "ustring \<Rightarrow> ustring" where
  "trim s = rev (dropWhile isWhiteSpace (rev (dropWhile isWhiteSpace s)))"

text \<open>
  \<^verbatim>\<open>String.prototype.toLowerCase\<close> on the letters A to Z; a code unit outside that range
  is left as it is (the case mapping of other alphabets is not modelled).
\<close>

definition lowerChar :: "nat \<Rightarrow> nat" where
  "lowerChar c = (if isUpper c then c + 32 else c)"

definition toLowerCase :: "ustring \<Rightarrow> ustring" where
  "toLowerCase s = map lowerChar s"

fun startsWith :: "ustring \<Rightarrow> ustring \<Rightarrow> bool" where
  "startsWith s [] = True"
| "startsWith [] (k # ks) = False"
| "startsWith (c # cs) (k # ks) = (c = k \<and> startsWith cs ks)"

text \<open>\<^verbatim>\<open>String.prototype.includes\<close>: \<open>k\<close> occurs in \<open>s\<close> as a contiguous substring.\<close>

fun str_includes :: "ustring \<Rightarrow> ustring \<Rightarrow> bool" where
  "str_includes [] k = (k = [])"
| "str_includes (c # cs) k = (startsWith (c # cs) k \<or> str_includes cs k)"

text \<open>\<^verbatim>\<open>Array.prototype.join\<close> on an array of strings.\<close>

fun join :: "ustring \<Rightarrow> ustring list \<Rightarrow> ustring" where
  "join sep [] = []"
| "join sep [x] = x"
| "join sep (x # y # ys) = x @ sep @ join sep (y # ys)"

section \<open>JavaScript numbers\<close>

text \<open>
  A Number is an IEEE 754 binary64 value. The finite ones are modelled by the rational
  they denote (the two zeros are identified: \<^verbatim>\<open>===\<close>, \<^verbatim>\<open><\<close>, \<^verbatim>\<open>JSON.stringify\<close> and
  \<^verbatim>\<open>Number.isFinite\<close> do not tell them apart). The result of an arithmetic operation is
  the exact result rounded to the nearest binary64 value, ties to even, by \<open>to_double\<close>.
\<close>

datatype jsnum = NaN | PInf | NInf | Fin rat

definition pow2 :: "int \<Rightarrow> rat" where
  "pow2 e = (if 0 \<le> e then 2 ^ nat e else 1 / 2 ^ nat (- e))"

text \<open>\<open>ilog2 x\<close> is the exponent \<open>e\<close> with \<open>2^e \<le> |x| < 2^(e+1)\<close>, for \<open>x \<noteq> 0\<close>.\<close>

definition ilog2 :: "rat \<Rightarrow> int" where
  "ilog2 x = (let (p, q) = quotient_of \<bar>x\<bar>; e = bitlen p - bitlen q
              in if pow2 e \<le> \<bar>x\<bar> then e else e - 1)"

definition round_half_even :: "rat \<Rightarrow> int" where
  "round_half_even y = (let f = \<lfloor>y\<rfloor>; r = y - of_int f
     in if r < 1 / 2 then f else if 1 / 2 < r then f + 1 else if even f then f else f + 1)"

text \<open>
  Rounding to binary64: 53 significant bits, the least exponent of a unit in the last
  place is -1074 (subnormal numbers), and a result of magnitude \<open>2^1024\<close> or more overflows
  to an infinity.
\<close>

definition to_double :: "rat \<Rightarrow> jsnum" where
  "to_double x = (if x = 0 then Fin 0 else
     let e = ilog2 x; q = pow2 (max (e - 52) (- 1074));
         v = of_int (round_half_even (x / q)) * q
     in if pow2 1024 \<le> \<bar>v\<bar> then (if 0 < x then PInf else NInf) else Fin v)"

text \<open>The operator \<^verbatim>\<open>*\<close> on Numbers.\<close>

fun js_mul :: "jsnum \<Rightarrow> jsnum \<Rightarrow> jsnum" where
  "js_mul (Fin x) (Fin y) = to_double (x * y)"
| "js_mul NaN b = NaN"
| "js_mul a NaN = NaN"
| "js_mul (Fin x) PInf = (if x = 0 then NaN else if 0 < x then PInf else NInf)"
| "js_mul (Fin x) NInf = (if x = 0 then NaN else if 0 < x then NInf else PInf)"
| "js_mul PInf (Fin y) = (if y = 0 then NaN else if 0 < y then PInf else NInf)"
| "js_mul NInf (Fin y) = (if y = 0 then NaN else if 0 < y then NInf else PInf)"
| "js_mul PInf PInf = PInf"
| "js_mul PInf NInf = NInf"
| "js_mul NInf PInf = NInf"
| "js_mul NInf NInf = PInf"

text \<open>Unary minus, \<^verbatim>\<open>Math.abs\<close> and \<^verbatim>\<open>Math.round\<close> (the nearest integer, a tie going up).\<close>

fun js_neg :: "jsnum \<Rightarrow> jsnum" where
  "js_neg NaN = NaN"
| "js_neg PInf = NInf"
| "js_neg NInf = PInf"
| "js_neg (Fin x) = Fin (- x)"

fun Math_abs :: "jsnum \<Rightarrow> jsnum" where
  "Math_abs NaN = NaN"
| "Math_abs PInf = PInf"
| "Math_abs NInf = PInf"
| "Math_abs (Fin x) = Fin \<bar>x\<bar>"

fun Math_round :: "jsnum \<Rightarrow> jsnum" where
  "Math_round (Fin x) = Fin (of_int \<lfloor>x + 1 / 2\<rfloor>)"
| "Math_round a = a"

text \<open>The comparisons \<^verbatim>\<open>a >= 0\<close> and \<^verbatim>\<open>a < 0\<close>; both are false on NaN.\<close>

fun js_ge0 :: "jsnum \<Rightarrow> bool" where
  "js_ge0 (Fin x) = (0 \<le> x)"
| "js_ge0 PInf = True"
| "js_ge0 a = False"

fun js_lt0 :: "jsnum \<Rightarrow> bool" where
  "js_lt0 (Fin x) = (x < 0)"
| "js_lt0 NInf = True"
| "js_lt0 a = False"

fun Number_isFinite :: "jsnum \<Rightarrow> bool" where
  "Number_isFinite (Fin x) = True"
| "Number_isFinite a = False"


subsection \<open>Numeric strings\<close>

definition digitsValue :: "ustring \<Rightarrow> nat" where
  "digitsValue ds = foldl (\<lambda>a c. 10 * a + (c - 48)) 0 ds"

definition pow10 :: "int \<Rightarrow> rat" where
  "pow10 e = (if 0 \<le> e then 10 ^ nat e else 1 / 10 ^ nat (- e))"

text \<open>
  An exponent part \<^verbatim>\<open>[eE][+-]?digits\<close> at the front of \<open>s\<close>: its value and the rest, or
  \<open>None\<close> when there is none.
\<close>

definition scanExponent :: "ustring \<Rightarrow> (int \<times> ustring) option" where
  "scanExponent s = (case s of
       [] \<Rightarrow> None
     | c # t \<Rightarrow>
         if c = 101 \<or> c = 69 then
           (let neg = (case t of [] \<Rightarrow> False | d # _ \<Rightarrow> d = 45);
                t' = (case t of [] \<Rightarrow> [] | d # t2 \<Rightarrow> if d = 45 \<or> d = 43 then t2 else t);
                ds = takeWhile isDigit t'
            in if ds = [] then None
               else Some (if neg then - int (digitsValue ds) else int (digitsValue ds),
                          dropWhile isDigit t'))
         else None)"

text \<open>
  The longest unsigned decimal literal at the front of \<open>s\<close> (\<^verbatim>\<open>digits[.digits*][exp]\<close> or
  \<^verbatim>\<open>.digits[exp]\<close>): its exact value and the rest of the string.
\<close>

definition scanDecimal :: "ustring \<Rightarrow> (rat \<times> ustring) option" where
  "scanDecimal s =
     (let ip = takeWhile isDigit s; r1 = dropWhile isDigit s;
          dot = (case r1 of [] \<Rightarrow> False | c # _ \<Rightarrow> c = 46);
          fp = (if dot then takeWhile isDigit (tl r1) else []);
          r2 = (if dot then dropWhile isDigit (tl r1) else r1)
      in if ip = [] \<and> fp = [] then None
         else
           (let m = of_nat (digitsValue ip) + of_nat (digitsValue fp) / 10 ^ length fp
            in case scanExponent r2 of
                 None \<Rightarrow> Some (m, r2)
               | Some (e, r3) \<Rightarrow> Some (m * pow10 e, r3)))"

text \<open>\<^verbatim>\<open>parseFloat\<close>: leading white space is skipped, the longest decimal literal is read.\<close>

definition parseFloat :: "ustring \<Rightarrow> jsnum" where
  "parseFloat s =
     (let t = dropWhile isWhiteSpace s;
          neg = (case t of [] \<Rightarrow> False | c # _ \<Rightarrow> c = 45);
          u = (case t of [] \<Rightarrow> [] | c # r \<Rightarrow> if c = 45 \<or> c = 43 then r else t)
      in if startsWith u (lit ''Infinity'') then (if neg then NInf else PInf)
         else case scanDecimal u of
                None \<Rightarrow> NaN
              | Some (m, _) \<Rightarrow> to_double (if neg then - m else m))"

definition digitOf :: "nat \<Rightarrow> nat option" where
  "digitOf c = (if isDigit c then Some (c - 48)
                else if 97 \<le> c \<and> c \<le> 102 then Some (c - 87)
                else if 65 \<le> c \<and> c \<le> 70 then Some (c - 55) else None)"

fun radixValue :: "nat \<Rightarrow> nat \<Rightarrow> ustring \<Rightarrow> nat option" where
  "radixValue b acc [] = Some acc"
| "radixValue b acc (c # cs) = (case digitOf c of
       None \<Rightarrow> None
     | Some d \<Rightarrow> if d < b then radixValue b (b * acc + d) cs else None)"

text \<open>A \<^verbatim>\<open>0x\<close>, \<^verbatim>\<open>0o\<close> or \<^verbatim>\<open>0b\<close> literal: \<open>Some\<close> of its Number when \<open>t\<close> has such a prefix.\<close>

definition nonDecimal :: "ustring \<Rightarrow> jsnum option" where
  "nonDecimal t = (case t of
       z # x # ds \<Rightarrow>
         (let b = (if x = 120 \<or> x = 88 then 16 else if x = 111 \<or> x = 79 then 8
                   else if x = 98 \<or> x = 66 then 2 else 0 :: nat)
          in if z = 48 \<and> b \<noteq> 0 then
               Some (if ds = [] then NaN
                     else case radixValue b 0 ds of None \<Rightarrow> NaN | Some n \<Rightarrow> to_double (of_nat n))
             else None)
     | _ \<Rightarrow> None)"

text \<open>
  The conversion of a string to a Number (\<^verbatim>\<open>ToNumber\<close> on a string, as \<^verbatim>\<open>*\<close> and \<^verbatim>\<open><\<close> apply
  it): the trimmed string is empty (zero), a numeric literal as a whole, or not a number.
\<close>

definition StringToNumber :: "ustring \<Rightarrow> jsnum" where
  "StringToNumber s =
     (let t = trim s in
      if t = [] then Fin 0
      else case nonDecimal t of
        Some r \<Rightarrow> r
      | None \<Rightarrow>
         (let neg = (hd t = 45);
              u = (if hd t = 45 \<or> hd t = 43 then tl t else t)
          in if u = lit ''Infinity'' then (if neg then NInf else PInf)
             else case scanDecimal u of
                    Some (m, []) \<Rightarrow> to_double (if neg then - m else m)
                  | _ \<Rightarrow> NaN))"

section \<open>JavaScript values\<close>

text \<open>
  The values a field of a record holds: \<^verbatim>\<open>undefined\<close> (also what reading an absent key
  gives), \<^verbatim>\<open>null\<close>, a boolean, a Number or a string.
\<close>

datatype jsval = JUndefined | JNull | JBool bool | JNum jsnum | JStr ustring

datatype js_error = TypeError

definition bindE :: "('e + 'a) \<Rightarrow> ('a \<Rightarrow> 'e + 'b) \<Rightarrow> 'e + 'b" where
  "bindE m f = (case m of Inl e \<Rightarrow> Inl e | Inr x \<Rightarrow> f x)"

fun truthy :: "jsval \<Rightarrow> bool" where
  "truthy JUndefined = False"
| "truthy JNull = False"
| "truthy (JBool b) = b"
| "truthy (JNum n) = (n \<noteq> NaN \<and> n \<noteq> Fin 0)"
| "truthy (JStr s) = (s \<noteq> [])"

text \<open>The operator \<^verbatim>\<open>a || b\<close>.\<close>

definition js_or :: "jsval \<Rightarrow> jsval \<Rightarrow> jsval" where
  "js_or a b = (if truthy a then a else b)"

fun ToNumber :: "jsval \<Rightarrow> jsnum" where
  "ToNumber JUndefined = NaN"
| "ToNumber JNull = Fin 0"
| "ToNumber (JBool b) = (if b then Fin 1 else Fin 0)"
| "ToNumber (JNum n) = n"
| "ToNumber (JStr s) = StringToNumber s"

text \<open>The operator \<^verbatim>\<open>===\<close>: NaN is equal to nothing, itself included.\<close>

definition strict_eq :: "jsval \<Rightarrow> jsval \<Rightarrow> bool" where
  "strict_eq a b \<longleftrightarrow> a = b \<and> a \<noteq> JNum NaN"

text \<open>
  The conversion to a string a template literal applies. The decimal representation of a
  finite Number (\<^verbatim>\<open>Number.prototype.toString\<close>) is the parameter \<open>nts\<close>.
\<close>

fun ToString :: "(rat \<Rightarrow> ustring) \<Rightarrow> jsval \<Rightarrow> ustring" where
  "ToString nts JUndefined = lit ''undefined''"
| "ToString nts JNull = lit ''null''"
| "ToString nts (JBool b) = (if b then lit ''true'' else lit ''false'')"
| "ToString nts (JNum NaN) = lit ''NaN''"
| "ToString nts (JNum PInf) = lit ''Infinity''"
| "ToString nts (JNum NInf) = lit ''-Infinity''"
| "ToString nts (JNum (Fin x)) = nts x"
| "ToString nts (JStr s) = s"

text \<open>
  A method of strings called on a value: \<^verbatim>\<open>v.toLowerCase()\<close>, and \<^verbatim>\<open>v?.trim()\<close>, which is
  \<^verbatim>\<open>undefined\<close> (\<open>None\<close>) on \<^verbatim>\<open>undefined\<close> and \<^verbatim>\<open>null\<close>. On a boolean or a Number the
  method does not exist and the call throws a TypeError.
\<close>

fun call_toLowerCase :: "jsval \<Rightarrow> js_error + ustring" where
  "call_toLowerCase (JStr s) = Inr (toLowerCase s)"
| "call_toLowerCase v = Inl TypeError"

fun opt_trim :: "jsval \<Rightarrow> js_error + ustring option" where
  "opt_trim JUndefined = Inr None"
| "opt_trim JNull = Inr None"
| "opt_trim (JStr s) = Inr (Some (trim s))"
| "opt_trim v = Inl TypeError"


section \<open>Regular expressions\<close>

text \<open>
  The regular expressions of the source are written out as syntax trees and run by a
  backtracking matcher. A match state is the input still to read and the captures made so
  far; \<open>ms\<close> returns the states in which a match of the expression can end, in the
  order in which a backtracking engine tries them, so that the head of the list is the
  match ECMAScript finds. \<open>Star True\<close> is the greedy \<^verbatim>\<open>*\<close>, \<open>Star False\<close> the lazy \<^verbatim>\<open>*?\<close>; an
  iteration that reads nothing is rejected, as in ECMAScript. \<open>Bos\<close> and \<open>Eos\<close> are \<^verbatim>\<open>^\<close>
  and \<^verbatim>\<open>$\<close> without the multiline flag.
\<close>

datatype regex =
    Cls "nat \<Rightarrow> bool"
  | Eps
  | Bos
  | Eos
  | Seq regex regex
  | Alt regex regex
  | Star bool regex
  | Group nat regex

type_synonym captures = "nat \<Rightarrow> ustring option"
type_synonym mstate = "ustring \<times> captures"

primrec star_iter :: "bool \<Rightarrow> (mstate \<Rightarrow> mstate list) \<Rightarrow> nat \<Rightarrow> mstate \<Rightarrow> mstate list" where
  "star_iter g f 0 st = [st]"
| "star_iter g f (Suc k) st =
     (let more = concat (map (\<lambda>st'. if length (fst st') < length (fst st)
                                      then star_iter g f k st' else []) (f st))
      in if g then more @ [st] else st # more)"

primrec ms :: "nat \<Rightarrow> regex \<Rightarrow> mstate \<Rightarrow> mstate list" where
  "ms n (Cls p) st = (case fst st of [] \<Rightarrow> [] | c # cs \<Rightarrow> if p c then [(cs, snd st)] else [])"
| "ms n Eps st = [st]"
| "ms n Bos st = (if length (fst st) = n then [st] else [])"
| "ms n Eos st = (if fst st = [] then [st] else [])"
| "ms n (Seq r1 r2) st = concat (map (ms n r2) (ms n r1 st))"
| "ms n (Alt r1 r2) st = ms n r1 st @ ms n r2 st"
| "ms n (Star g r) st = star_iter g (ms n r) (length (fst st)) st"
| "ms n (Group i r) st =
     map (\<lambda>st'. (fst st', (snd st')(i \<mapsto> take (length (fst st) - length (fst st')) (fst st))))
         (ms n r st)"

text \<open>
  \<^verbatim>\<open>str.match(re)\<close> for an expression without the global flag: the first start offset
  with a match, and the captures of that match; \<open>None\<close> is \<^verbatim>\<open>null\<close>.
\<close>

definition regex_match :: "regex \<Rightarrow> ustring \<Rightarrow> captures option" where
  "regex_match r s =
     (case concat (map (\<lambda>i. ms (length s) r (drop i s, Map.empty)) [0..<Suc (length s)]) of
        [] \<Rightarrow> None
      | st # _ \<Rightarrow> Some (snd st))"

text \<open>Derived forms: a literal, a literal under the flag \<^verbatim>\<open>i\<close>, \<^verbatim>\<open>r?\<close>, \<^verbatim>\<open>r+\<close>, \<^verbatim>\<open>r{n}\<close>, \<^verbatim>\<open>r{n,}\<close>.\<close>

definition Chr :: "nat \<Rightarrow> regex" where
  "Chr c = Cls (\<lambda>x. x = c)"

definition ChrCI :: "nat \<Rightarrow> regex" where
  "ChrCI c = Cls (\<lambda>x. lowerChar x = lowerChar c)"

primrec Lit :: "ustring \<Rightarrow> regex" where
  "Lit [] = Eps"
| "Lit (c # cs) = Seq (Chr c) (Lit cs)"

primrec LitCI :: "ustring \<Rightarrow> regex" where
  "LitCI [] = Eps"
| "LitCI (c # cs) = Seq (ChrCI c) (LitCI cs)"

definition Opt :: "regex \<Rightarrow> regex" where
  "Opt r = Alt r Eps"

definition Plus :: "bool \<Rightarrow> regex \<Rightarrow> regex" where
  "Plus g r = Seq r (Star g r)"

primrec Rep :: "nat \<Rightarrow> regex \<Rightarrow> regex" where
  "Rep 0 r = Eps"
| "Rep (Suc n) r = Seq r (Rep n r)"

definition RepMin :: "nat \<Rightarrow> regex \<Rightarrow> regex" where
  "RepMin n r = Seq (Rep n r) (Star True r)"

text \<open>The classes \<^verbatim>\<open>\s\<close>, \<^verbatim>\<open>\d\<close> and \<^verbatim>\<open>.\<close> (any code unit but a line terminator).\<close>

definition re_space :: regex where
  "re_space = Cls isWhiteSpace"

definition re_digit :: regex where
  "re_digit = Cls isDigit"

definition re_dot :: regex where
  "re_dot = Cls (\<lambda>c. c \<notin> {10, 13, 8232, 8233})"

section \<open>parser.js\<close>

text \<open>
  \<^verbatim>\<open>/^([+\<minus>-])?\s*\$?([+\<minus>-])?\s*([\d,]+(?:\.\d{2})?)\s*([A-Z]{3})?$/\<close>, where the second
  sign of the class is the Unicode minus sign U+2212.
\<close>

definition re_sign :: regex where
  "re_sign = Cls (\<lambda>c. c = 43 \<or> c = 8722 \<or> c = 45)"

definition currencyRegex :: regex where
  "currencyRegex =
     Seq Bos (Seq (Opt (Group 1 re_sign)) (Seq (Star True re_space) (Seq (Opt (Chr 36))
       (Seq (Opt (Group 2 re_sign)) (Seq (Star True re_space)
         (Seq (Group 3 (Seq (Plus True (Cls (\<lambda>c. isDigit c \<or> c = 44)))
                            (Opt (Seq (Chr 46) (Rep 2 re_digit)))))
           (Seq (Star True re_space) (Seq (Opt (Group 4 (Rep 3 (Cls isUpper)))) Eos))))))))"

record currencyValue =
  cv_amount :: jsval
  cv_currency :: jsval

text \<open>
  \<open>parseCurrencyValue\<close>. \<^verbatim>\<open>match[3].replace\<close> would throw on an undefined third group;
  \<^verbatim>\<open>match[1] || match[2]\<close> takes the first sign that is there and not empty.
\<close>

definition parseCurrencyValue :: "ustring \<Rightarrow> js_error + currencyValue" where
  "parseCurrencyValue v =
     (case regex_match currencyRegex v of
        None \<Rightarrow> Inr \<lparr>cv_amount = JNull, cv_currency = JUndefined\<rparr>
      | Some m \<Rightarrow>
         (let signChar = (case m 1 of Some (c # cs) \<Rightarrow> Some (c # cs) | _ \<Rightarrow> m 2);
              sign = (if signChar = Some [8722] \<or> signChar = Some [45] then Fin (- 1) else Fin 1)
          in case m 3 of
               None \<Rightarrow> Inl TypeError
             | Some g3 \<Rightarrow>
                Inr \<lparr>cv_amount = JNum (js_mul (parseFloat (filter (\<lambda>c. c \<noteq> 44) g3)) sign),
                     cv_currency = (case m 4 of Some (c # cs) \<Rightarrow> JStr (c # cs)
                                    | _ \<Rightarrow> JUndefined)\<rparr>))"


section \<open>transformer.js\<close>

text \<open>
  A WealthSimple transaction as the transformer reads it: the keys it looks at, each
  holding any value (\<open>JUndefined\<close> for a key that is not there), and the transfer info
  the import command stores under \<^verbatim>\<open>_transferInfo\<close> on a transaction it moved.
\<close>

record transferInfo =
  isTransfer :: jsval
  toAccount :: jsval

record wsTransaction =
  ws_account :: jsval
  ws_date :: jsval
  ws_submitted :: jsval
  ws_filled :: jsval
  ws_amount :: jsval
  ws_type :: jsval
  ws_description :: jsval
  ws_email :: jsval
  ws_message :: jsval
  ws_filledQuantity :: jsval
  ws_transactionId :: jsval
  ws_from :: jsval
  ws_to :: jsval
  ws_subheading :: jsval
  ws_transferInfo :: "transferInfo option"

text \<open>
  The transaction in ActualBudget format. The five public keys are always there; a key
  that may be missing from the object is an option, \<open>None\<close> when it is missing. The
  names with \<open>u_\<close> are the keys the source writes with a leading underscore.
\<close>

record transaction =
  Date :: jsval
  Account :: jsval
  Payee :: jsval
  Notes :: jsval
  Amount :: jsval
  u_isTransfer :: "jsval option"
  u_transferToAccount :: "jsval option"
  u_accountId :: "jsval option"
  t_category :: "jsval option"

record transformOptions =
  isAccountMapped :: "(jsval \<Rightarrow> bool) option"

text \<open>
  \<open>formatDateToYMD\<close>. What \<^verbatim>\<open>new Date(dateStr)\<close> makes of a value is up to the engine: the
  parameter \<open>toISO\<close> gives \<^verbatim>\<open>toISOString()\<close> of that date, or \<open>None\<close> when the date is
  invalid.
\<close>

definition formatDateToYMD :: "(jsval \<Rightarrow> ustring option) \<Rightarrow> jsval \<Rightarrow> jsval" where
  "formatDateToYMD toISO dateStr =
     (if \<not> truthy dateStr then JNull
      else case toISO dateStr of
             None \<Rightarrow> dateStr
           | Some d \<Rightarrow> JStr (takeWhile (\<lambda>c. c \<noteq> 84) d))"

text \<open>The conversion of the amount to cents in \<open>transformTransaction\<close>.\<close>

definition amountInCents :: "jsval \<Rightarrow> jsnum" where
  "amountInCents a =
     (if a = JStr [] \<or> a = JNull \<or> a = JUndefined then NaN
      else
        (let rawCents = js_mul (ToNumber a) (Fin 100)
         in if js_ge0 rawCents then Math_round rawCents
            else js_neg (Math_round (js_neg rawCents))))"

definition detectTransfer :: "wsTransaction \<Rightarrow> (jsval \<Rightarrow> bool) option \<Rightarrow> transferInfo" where
  "detectTransfer t mapped =
     (if truthy (ws_from t) \<and> truthy (ws_to t) then
        (case mapped of
           None \<Rightarrow> \<lparr>isTransfer = JBool False, toAccount = JNull\<rparr>
         | Some p \<Rightarrow>
             if p (ws_from t) \<and> p (ws_to t) then
               \<lparr>isTransfer = JBool True,
                toAccount = (if strict_eq (ws_account t) (ws_from t) then ws_to t else ws_from t)\<rparr>
             else \<lparr>isTransfer = JBool False, toAccount = JNull\<rparr>)
      else \<lparr>isTransfer = JBool False, toAccount = JNull\<rparr>)"

definition debitTypes :: "ustring list" where
  "debitTypes = map lit [''withdrawal'', ''withdraw'', ''payment'', ''purchase'',
                         ''transfer_out'', ''fee'', ''interest_charge'']"

definition creditTypes :: "ustring list" where
  "creditTypes = map lit [''deposit'', ''transfer_in'', ''interest'', ''dividend'', ''refund'']"

definition isDebitTransaction :: "wsTransaction \<Rightarrow> js_error + bool" where
  "isDebitTransaction t =
     bindE (call_toLowerCase (js_or (ws_type t) (JStr []))) (\<lambda>ty.
       if list_ex (\<lambda>debitType. str_includes ty debitType) debitTypes then Inr True
       else if js_lt0 (ToNumber (ws_amount t)) then Inr True
       else if list_ex (\<lambda>creditType. str_includes ty creditType) creditTypes then Inr False
       else Inr False)"

text \<open>A string that may be \<^verbatim>\<open>undefined\<close>, tested for truth: it is there and not empty.\<close>

fun present :: "ustring option \<Rightarrow> bool" where
  "present None = False"
| "present (Some s) = (s \<noteq> [])"

definition buildNotesFromSpec :: "wsTransaction \<Rightarrow> js_error + ustring" where
  "buildNotesFromSpec t =
     bindE (opt_trim (ws_subheading t)) (\<lambda>subheading.
     bindE (opt_trim (ws_type t)) (\<lambda>type.
     bindE (opt_trim (ws_email t)) (\<lambda>email.
     bindE (opt_trim (ws_message t)) (\<lambda>message.
     bindE (opt_trim (ws_filledQuantity t)) (\<lambda>filledQuantity.
     bindE (opt_trim (ws_transactionId t)) (\<lambda>transactionId.
       (let mainPart0 =
              (if present subheading \<and> present type \<and> subheading \<noteq> type
                 then the subheading @ lit '' - '' @ the type
               else if present subheading then the subheading
               else if present type then the type
               else []);
            mainPart = (if present email then mainPart0 @ lit '' ('' @ the email @ lit '')''
                        else mainPart0);
            hasMessage = present message;
            hasQuantity = present filledQuantity;
            suffixParts =
              (if hasMessage then [the message] else []) @
              (if hasQuantity then [the filledQuantity] else []) @
              (if present transactionId then [lit ''['' @ the transactionId @ lit '']''] else []);
            suffix = join (lit '' '') suffixParts
        in Inr (if suffix = [] then mainPart
                else if hasMessage \<or> hasQuantity then mainPart @ lit '': '' @ suffix
                else mainPart @ lit '' '' @ suffix))))))))"

text \<open>
  \<open>cleanPayeeName\<close>: \<^verbatim>\<open>replace(/\s+/g, ' ')\<close> turns each run of white space into one space
  (\<open>prev\<close> says that the code unit before was white space), the second \<^verbatim>\<open>replace\<close> keeps
  the word characters, the white space and \<^verbatim>\<open>- & . '\<close>.
\<close>

primrec collapseSpaces :: "bool \<Rightarrow> ustring \<Rightarrow> ustring" where
  "collapseSpaces prev [] = []"
| "collapseSpaces prev (c # cs) =
     (if isWhiteSpace c then (if prev then collapseSpaces True cs else 32 # collapseSpaces True cs)
      else c # collapseSpaces False cs)"

definition cleanPayeeName :: "ustring \<Rightarrow> ustring" where
  "cleanPayeeName name =
     take 100 (trim (filter (\<lambda>c. isWordChar c \<or> isWhiteSpace c \<or> c \<in> {45, 38, 46, 39})
                            (collapseSpaces False name)))"

definition typeMap :: "(ustring \<times> ustring) list" where
  "typeMap = map (\<lambda>(k, v). (lit k, lit v))
     [(''deposit'', ''Deposit''), (''withdrawal'', ''Withdrawal''), (''transfer'', ''Transfer''),
      (''transfer_in'', ''Transfer In''), (''transfer_out'', ''Transfer Out''),
      (''payment'', ''Payment''), (''purchase'', ''Purchase''), (''interest'', ''Interest''),
      (''dividend'', ''Dividend''), (''fee'', ''Fee''), (''refund'', ''Refund'')]"

definition getPayeeByType :: "jsval \<Rightarrow> js_error + jsval" where
  "getPayeeByType ty =
     bindE (call_toLowerCase (js_or ty (JStr []))) (\<lambda>lowerType.
       case find (\<lambda>(key, v). str_includes lowerType key) typeMap of
         Some (key, v) \<Rightarrow> Inr (JStr v)
       | None \<Rightarrow> Inr (js_or ty (JStr (lit ''Unknown''))))"

text \<open>
  The three patterns of \<open>buildPayeeName\<close>:
  \<^verbatim>\<open>/^(?:transfer (?:to|from)|payment (?:to|from))\s+(.+)$/i\<close>,
  \<^verbatim>\<open>/^(.+?)(?:\s+\d{4,}|\s+#\d+|\s+\*{4}\d{4})?$/\<close> and
  \<^verbatim>\<open>/^(.+?)(?:\s+on\s+\d{1,2}\/\d{1,2})?$/\<close>.
\<close>

definition payeePattern1 :: regex where
  "payeePattern1 =
     Seq Bos (Seq (Alt (Seq (LitCI (lit ''transfer '')) (Alt (LitCI (lit ''to'')) (LitCI (lit ''from''))))
                       (Seq (LitCI (lit ''payment '')) (Alt (LitCI (lit ''to'')) (LitCI (lit ''from'')))))
       (Seq (Plus True re_space) (Seq (Group 1 (Plus True re_dot)) Eos)))"

definition payeePattern2 :: regex where
  "payeePattern2 =
     Seq Bos (Seq (Group 1 (Plus False re_dot))
       (Seq (Opt (Alt (Seq (Plus True re_space) (RepMin 4 re_digit))
                 (Alt (Seq (Plus True re_space) (Seq (Chr 35) (Plus True re_digit)))
                      (Seq (Plus True re_space) (Seq (Rep 4 (Chr 42)) (Rep 4 re_digit))))))
            Eos))"

definition payeePattern3 :: regex where
  "payeePattern3 =
     Seq Bos (Seq (Group 1 (Plus False re_dot))
       (Seq (Opt (Seq (Plus True re_space) (Seq (Lit (lit ''on'')) (Seq (Plus True re_space)
                   (Seq re_digit (Seq (Opt re_digit) (Seq (Chr 47)
                     (Seq re_digit (Opt re_digit)))))))))
            Eos))"

text \<open>
  The loop over the patterns: the first pattern that matches with a first group that is
  not empty gives the payee name; \<open>None\<close> when the loop ends without one.
\<close>

fun tryPatterns :: "regex list \<Rightarrow> ustring \<Rightarrow> ustring option" where
  "tryPatterns [] d = None"
| "tryPatterns (p # ps) d =
     (case regex_match p d of
        None \<Rightarrow> tryPatterns ps d
      | Some m \<Rightarrow> (case m 1 of
                     Some (c # cs) \<Rightarrow> Some (cleanPayeeName (c # cs))
                   | _ \<Rightarrow> tryPatterns ps d))"

definition wealthSimplePayees :: "ustring list" where
  "wealthSimplePayees = map lit [''Referral'', ''Interest'', ''Bonus'', ''Cash back'', ''Reimbursement'']"

definition buildPayeeName :: "wsTransaction \<Rightarrow> js_error + jsval" where
  "buildPayeeName t =
     bindE (if truthy (ws_description t) then
              (case ws_description t of
                 JStr d \<Rightarrow>
                   Inr (JStr (case tryPatterns [payeePattern1, payeePattern2, payeePattern3] d of
                                Some (c # cs) \<Rightarrow> c # cs
                              | _ \<Rightarrow> cleanPayeeName d))
               | _ \<Rightarrow> Inl TypeError)
            else getPayeeByType (ws_type t)) (\<lambda>payeeName.
       if payeeName \<in> JStr ` set wealthSimplePayees then Inr (JStr (lit ''WealthSimple''))
       else Inr payeeName)"

text \<open>
  The transfer info \<open>transformTransaction\<close> goes by: the one stored on the transaction
  when there is one, what \<open>detectTransfer\<close> finds otherwise.
\<close>

definition actualTransferInfo :: "wsTransaction \<Rightarrow> transformOptions \<Rightarrow> transferInfo" where
  "actualTransferInfo t options =
     (case ws_transferInfo t of
        Some i \<Rightarrow> i
      | None \<Rightarrow> detectTransfer t (isAccountMapped options))"

text \<open>
  \<open>transformTransaction\<close>. \<open>nts\<close> is the decimal representation of a finite Number and
  \<open>toISO\<close> the date parameter of \<open>formatDateToYMD\<close>.
\<close>

definition transformTransaction ::
    "(rat \<Rightarrow> ustring) \<Rightarrow> (jsval \<Rightarrow> ustring option) \<Rightarrow> wsTransaction \<Rightarrow> transformOptions
       \<Rightarrow> js_error + transaction" where
  "transformTransaction nts toISO t options =
     (let rawDate = js_or (js_or (ws_date t) (ws_filled t)) (ws_submitted t);
          transactionDate = formatDateToYMD toISO rawDate;
          amountInCents = amountInCents (ws_amount t)
      in bindE (isDebitTransaction t) (\<lambda>isDebit.
         let finalAmount = (if isDebit then js_neg (Math_abs amountInCents)
                            else Math_abs amountInCents);
             info = actualTransferInfo t options
         in bindE (if truthy (isTransfer info) \<and> truthy (ws_from t) \<and> truthy (ws_to t)
                   then Inr (ToString nts (ws_from t) @ lit '' -> '' @ ToString nts (ws_to t))
                   else buildNotesFromSpec t) (\<lambda>notes.
            bindE (buildPayeeName t) (\<lambda>payee.
              Inr \<lparr>Date = transactionDate, Account = ws_account t, Payee = payee,
                   Notes = JStr notes, Amount = JNum finalAmount,
                   u_isTransfer = (if truthy (isTransfer info) then Some (JBool True) else None),
                   u_transferToAccount = (if truthy (isTransfer info)
                                          then Some (toAccount info) else None),
                   u_accountId = None, t_category = None\<rparr>))))"

section \<open>config.js\<close>

record accountEntry =
  wsAccountName :: jsval
  actualAccountId :: jsval

record resolvedAccount =
  accountId :: jsval
  accountName :: jsval
  needsLookup :: bool
  matchType :: ustring
  matchedPattern :: jsval

text \<open>The class \<^verbatim>\<open>/[.*+?^${}()|[\]\\]/\<close> of \<open>resolveAccount\<close>.\<close>

definition regexChars :: "nat set" where
  "regexChars = {46, 42, 43, 63, 94, 36, 123, 125, 40, 41, 124, 91, 93, 92}"

text \<open>
  The body of the loop of \<open>resolveAccount\<close> over \<^verbatim>\<open>config.accounts\<close>. A pattern of the
  configuration is any regular expression of ECMAScript: \<open>rx src s\<close> stands for
  \<^verbatim>\<open>new RegExp(src, 'i').test(s)\<close>, and is \<open>None\<close> when \<open>src\<close> is not a valid expression
  (the constructor throws, the source catches it and goes on to the next entry).
\<close>

fun resolveLoop ::
    "(ustring \<Rightarrow> ustring \<Rightarrow> bool option) \<Rightarrow> (rat \<Rightarrow> ustring) \<Rightarrow> jsval \<Rightarrow> accountEntry list
       \<Rightarrow> js_error + resolvedAccount option" where
  "resolveLoop rx nts name [] = Inr None"
| "resolveLoop rx nts name (account # rest) =
     (if \<not> truthy (wsAccountName account) \<or> \<not> truthy (actualAccountId account)
        then resolveLoop rx nts name rest
      else
        (let pattern = wsAccountName account;
             isRegex = (\<exists>c \<in> set (ToString nts pattern). c \<in> regexChars)
         in if isRegex then
              (case rx (lit ''^'' @ ToString nts pattern @ lit ''$'') (ToString nts name) of
                 None \<Rightarrow> resolveLoop rx nts name rest
               | Some True \<Rightarrow>
                   Inr (Some \<lparr>accountId = actualAccountId account, accountName = name,
                              needsLookup = False, matchType = lit ''regex'',
                              matchedPattern = pattern\<rparr>)
               | Some False \<Rightarrow> resolveLoop rx nts name rest)
            else
              bindE (call_toLowerCase pattern) (\<lambda>p.
              bindE (call_toLowerCase name) (\<lambda>n.
                if p = n then
                  Inr (Some \<lparr>accountId = actualAccountId account, accountName = name,
                             needsLookup = False, matchType = lit ''exact'',
                             matchedPattern = pattern\<rparr>)
                else resolveLoop rx nts name rest))))"

text \<open>
  \<open>resolveAccount\<close>: the configuration is \<open>None\<close> when \<^verbatim>\<open>config\<close> is missing, has no
  \<^verbatim>\<open>accounts\<close> or \<^verbatim>\<open>accounts\<close> is not an array, and the list of its entries otherwise.
\<close>

definition resolveAccount ::
    "(ustring \<Rightarrow> ustring \<Rightarrow> bool option) \<Rightarrow> (rat \<Rightarrow> ustring) \<Rightarrow> jsval \<Rightarrow> accountEntry list option
       \<Rightarrow> js_error + resolvedAccount option" where
  "resolveAccount rx nts name config =
     (case config of None \<Rightarrow> Inr None | Some accounts \<Rightarrow> resolveLoop rx nts name accounts)"

section \<open>actual-client.js\<close>

subsection \<open>JSON.stringify\<close>

definition hexDigit :: "nat \<Rightarrow> nat" where
  "hexDigit d = (if d < 10 then 48 + d else 87 + d)"

definition unicodeEscape :: "nat \<Rightarrow> ustring" where
  "unicodeEscape c = [92, 117, hexDigit (c div 4096 mod 16), hexDigit (c div 256 mod 16),
                      hexDigit (c div 16 mod 16), hexDigit (c mod 16)]"

definition isHighSurrogate :: "nat \<Rightarrow> bool" where
  "isHighSurrogate c \<longleftrightarrow> 55296 \<le> c \<and> c \<le> 56319"

definition isLowSurrogate :: "nat \<Rightarrow> bool" where
  "isLowSurrogate c \<longleftrightarrow> 56320 \<le> c \<and> c \<le> 57343"

text \<open>
  The body of a quoted JSON string: the short escapes, \<^verbatim>\<open>\u00XX\<close> for the other control
  characters and for a surrogate without its pair, every other code unit as it is.
\<close>

fun quoteChars :: "ustring \<Rightarrow> ustring" where
  "quoteChars [] = []"
| "quoteChars (c # cs) =
     (if c = 8 then [92, 98] @ quoteChars cs
      else if c = 9 then [92, 116] @ quoteChars cs
      else if c = 10 then [92, 110] @ quoteChars cs
      else if c = 12 then [92, 102] @ quoteChars cs
      else if c = 13 then [92, 114] @ quoteChars cs
      else if c = 34 then [92, 34] @ quoteChars cs
      else if c = 92 then [92, 92] @ quoteChars cs
      else if c < 32 then unicodeEscape c @ quoteChars cs
      else if isHighSurrogate c then
        (case cs of
           d # ds \<Rightarrow> if isLowSurrogate d then c # d # quoteChars ds
                     else unicodeEscape c @ quoteChars cs
         | [] \<Rightarrow> unicodeEscape c)
      else if isLowSurrogate c then unicodeEscape c @ quoteChars cs
      else c # quoteChars cs)"

definition quoteJSONString :: "ustring \<Rightarrow> ustring" where
  "quoteJSONString s = [34] @ quoteChars s @ [34]"

text \<open>The JSON text of a value; \<open>None\<close> for \<^verbatim>\<open>undefined\<close>, whose key is left out.\<close>

fun serializeJSONProperty :: "(rat \<Rightarrow> ustring) \<Rightarrow> jsval \<Rightarrow> ustring option" where
  "serializeJSONProperty nts JUndefined = None"
| "serializeJSONProperty nts JNull = Some (lit ''null'')"
| "serializeJSONProperty nts (JBool b) = Some (if b then lit ''true'' else lit ''false'')"
| "serializeJSONProperty nts (JNum (Fin x)) = Some (nts x)"
| "serializeJSONProperty nts (JNum n) = Some (lit ''null'')"
| "serializeJSONProperty nts (JStr s) = Some (quoteJSONString s)"

text \<open>\<^verbatim>\<open>JSON.stringify\<close> of an object given by its keys and values in the order of the keys.\<close>

definition JSON_stringify :: "(rat \<Rightarrow> ustring) \<Rightarrow> (ustring \<times> jsval) list \<Rightarrow> ustring" where
  "JSON_stringify nts obj =
     lit ''{'' @
     join (lit '','')
       (concat (map (\<lambda>(k, v). case serializeJSONProperty nts v of
                                  None \<Rightarrow> []
                                | Some j \<Rightarrow> [quoteJSONString k @ lit '':'' @ j]) obj)) @
     lit ''}''"

subsection \<open>The client\<close>

record actualAccount =
  account_id :: jsval
  account_name :: jsval

record actualPayee =
  payee_id :: jsval
  payee_nm :: jsval
  transfer_acct :: jsval

text \<open>
  The two maps of the client, from an account name or id to the account and to its
  transfer payee.
\<close>

record actualClient =
  accountMap :: "jsval \<Rightarrow> actualAccount option"
  transferPayeeMap :: "jsval \<Rightarrow> actualPayee option"

definition findAccount :: "actualClient \<Rightarrow> jsval \<Rightarrow> actualAccount option" where
  "findAccount client nameOrId = accountMap client nameOrId"

definition findTransferPayee :: "actualClient \<Rightarrow> jsval \<Rightarrow> actualPayee option" where
  "findTransferPayee client accountNameOrId = transferPayeeMap client accountNameOrId"

text \<open>Reading a key of an object that may not have it.\<close>

fun getv :: "jsval option \<Rightarrow> jsval" where
  "getv None = JUndefined"
| "getv (Some v) = v"

text \<open>
  \<open>generateImportedId\<close>. \<open>sha256\<close> stands for
  \<^verbatim>\<open>createHash('sha256').update(s).digest('hex')\<close> of Node's crypto module.
\<close>

definition generateImportedId ::
    "(ustring \<Rightarrow> ustring) \<Rightarrow> (rat \<Rightarrow> ustring) \<Rightarrow> transaction \<Rightarrow> ustring" where
  "generateImportedId sha256 nts t =
     (let sortedTransaction =
            [(lit ''account'', Account t), (lit ''amount'', Amount t), (lit ''date'', Date t),
             (lit ''notes'', Notes t), (lit ''payee'', Payee t)];
          transactionString = JSON_stringify nts sortedTransaction;
          hash = sha256 transactionString
      in lit ''ws_'' @ take 16 hash)"

record actualTransaction =
  date :: jsval
  amount :: jsval
  imported_id :: ustring
  cleared :: bool
  account :: "jsval option"
  payee :: "jsval option"
  payee_name :: "jsval option"
  notes' :: "jsval option"
  category :: "jsval option"

definition convertToImportFormat ::
    "(ustring \<Rightarrow> ustring) \<Rightarrow> (rat \<Rightarrow> ustring) \<Rightarrow> actualClient \<Rightarrow> transaction
       \<Rightarrow> actualTransaction" where
  "convertToImportFormat sha256 nts client t =
     (let actualTransaction0 =
            \<lparr>date = Date t, amount = Amount t, imported_id = generateImportedId sha256 nts t,
             cleared = False,
             account = (if truthy (Account t)
                        then map_option account_id (findAccount client (Account t)) else None),
             payee = None, payee_name = None, notes' = None, category = None\<rparr>;
          regular = actualTransaction0
            \<lparr>payee_name := (if truthy (Payee t) then Some (Payee t) else None),
             notes' := Some (js_or (Notes t) (JStr []))\<rparr>;
          actualTransaction1 =
            (if truthy (getv (u_isTransfer t)) \<and> truthy (getv (u_transferToAccount t)) then
               (case findTransferPayee client (getv (u_transferToAccount t)) of
                  Some transferPayee \<Rightarrow>
                    actualTransaction0\<lparr>payee := Some (payee_id transferPayee),
                                       notes' := Some (js_or (Notes t) (JStr []))\<rparr>
                | None \<Rightarrow> regular)
             else regular)
      in if truthy (getv (t_category t))
         then actualTransaction1\<lparr>category := Some (getv (t_category t))\<rparr>
         else actualTransaction1)"

text \<open>
  The first part of \<open>importTransactions\<close>: the loop that groups the import records by
  account, adding the mirror record of a transfer to the group of its destination.
  \<^verbatim>\<open>transactionsByAccount\<close> is a \<^verbatim>\<open>Map\<close>, here the list of its keys with their arrays in
  the order in which the keys were set; \<^verbatim>\<open>errors\<close> collects what the loop body throws.
\<close>

record groupEntry =
  original :: transaction
  import_rec :: actualTransaction
  index :: nat
  isMirrorTransfer :: bool

record importError =
  err_transaction :: transaction
  err_index :: nat
  err_message :: ustring

type_synonym groups = "(jsval \<times> groupEntry list) list"

text \<open>\<^verbatim>\<open>if (!m.has(k)) m.set(k, []); m.get(k).push(e)\<close>.\<close>

fun pushGroup :: "jsval \<Rightarrow> groupEntry \<Rightarrow> groups \<Rightarrow> groups" where
  "pushGroup k e [] = [(k, [e])]"
| "pushGroup k e ((k', es) # m) = (if k' = k then (k', es @ [e]) # m else (k', es) # pushGroup k e m)"

definition resolveAccountId :: "(rat \<Rightarrow> ustring) \<Rightarrow> actualClient \<Rightarrow> transaction \<Rightarrow> ustring + jsval" where
  "resolveAccountId nts client t =
     (if truthy (getv (u_accountId t)) then Inr (getv (u_accountId t))
      else if \<not> truthy (Account t) then Inl (lit ''Account is required'')
      else case findAccount client (Account t) of
             None \<Rightarrow> Inl (lit ''Account not found: '' @ ToString nts (Account t))
           | Some a \<Rightarrow> Inr (account_id a))"

definition mirrorTransaction :: "transaction \<Rightarrow> actualTransaction \<Rightarrow> actualPayee \<Rightarrow> actualTransaction" where
  "mirrorTransaction t importTransaction transferPayee =
     \<lparr>date = Date t, amount = JNum (js_neg (ToNumber (Amount t))),
      imported_id = imported_id importTransaction @ lit ''_mirror'', cleared = False,
      account = None, payee = Some (payee_id transferPayee), payee_name = None,
      notes' = Some (js_or (Notes t) (JStr [])), category = None\<rparr>"

definition groupStep ::
    "(ustring \<Rightarrow> ustring) \<Rightarrow> (rat \<Rightarrow> ustring) \<Rightarrow> actualClient
       \<Rightarrow> groups \<times> importError list \<Rightarrow> transaction \<times> nat \<Rightarrow> groups \<times> importError list" where
  "groupStep sha256 nts client st ti =
     (let transactionsByAccount = fst st; errors = snd st; t = fst ti; i = snd ti
      in case resolveAccountId nts client t of
           Inl msg \<Rightarrow>
             (transactionsByAccount,
              errors @ [\<lparr>err_transaction = t, err_index = i, err_message = msg\<rparr>])
         | Inr acctId \<Rightarrow>
             (let importTransaction = convertToImportFormat sha256 nts client t;
                  m1 = pushGroup acctId
                         \<lparr>original = t, import_rec = importTransaction, index = i,
                          isMirrorTransfer = False\<rparr> transactionsByAccount
              in if truthy (getv (u_isTransfer t)) \<and> truthy (getv (u_transferToAccount t)) then
                   (case findTransferPayee client (getv (u_transferToAccount t)) of
                      Some transferPayee \<Rightarrow>
                        (pushGroup (getv (u_transferToAccount t))
                           \<lparr>original = t,
                            import_rec = mirrorTransaction t importTransaction transferPayee,
                            index = i, isMirrorTransfer = True\<rparr> m1,
                         errors)
                    | None \<Rightarrow> (m1, errors))
                 else (m1, errors)))"

definition groupTransactions ::
    "(ustring \<Rightarrow> ustring) \<Rightarrow> (rat \<Rightarrow> ustring) \<Rightarrow> actualClient \<Rightarrow> transaction list
       \<Rightarrow> groups \<times> importError list" where
  "groupTransactions sha256 nts client transactions =
     foldl (groupStep sha256 nts client) ([], []) (zip transactions [0..<length transactions])"


section \<open>Reference notions and sample inputs\<close>



text \<open>The record with no key at all, and the options without a predicate.\<close>

definition absentTransaction :: wsTransaction where
  "absentTransaction =
     \<lparr>ws_account = JUndefined, ws_date = JUndefined, ws_submitted = JUndefined,
      ws_filled = JUndefined, ws_amount = JUndefined, ws_type = JUndefined,
      ws_description = JUndefined, ws_email = JUndefined, ws_message = JUndefined,
      ws_filledQuantity = JUndefined, ws_transactionId = JUndefined, ws_from = JUndefined,
      ws_to = JUndefined, ws_subheading = JUndefined, ws_transferInfo = None\<rparr>"

definition noOptions :: transformOptions where
  "noOptions = \<lparr>isAccountMapped = None\<rparr>"






text \<open>
  Transfers between two mapped accounts: a transfer seen from its source, a record whose
  from and to are the same account, and a record that carries a stored transfer info.
\<close>

definition mappedOptions :: transformOptions where
  "mappedOptions =
     \<lparr>isAccountMapped = Some (\<lambda>a. a = JStr (lit ''Checking'') \<or> a = JStr (lit ''Savings''))\<rparr>"

definition transferTransaction :: wsTransaction where
  "transferTransaction =
     absentTransaction\<lparr>ws_account := JStr (lit ''Checking''), ws_from := JStr (lit ''Checking''),
                        ws_to := JStr (lit ''Savings'')\<rparr>"

definition sameAccountTransfer :: wsTransaction where
  "sameAccountTransfer =
     absentTransaction\<lparr>ws_account := JStr (lit ''Checking''), ws_from := JStr (lit ''Checking''),
                        ws_to := JStr (lit ''Checking'')\<rparr>"

definition movedTransaction :: wsTransaction where
  "movedTransaction =
     absentTransaction\<lparr>ws_account := JStr (lit ''Checking''),
        ws_transferInfo := Some \<lparr>isTransfer = JBool True, toAccount = JStr (lit ''Savings'')\<rparr>\<rparr>"

section \<open>Properties of the numbers\<close>

lemma round_half_even_minus: "round_half_even (- y) = - round_half_even y"
proof (cases "y \<in> \<int>")
  case True
  then obtain k where "y = of_int k" by (auto elim: Ints_cases)
  then show ?thesis by (simp add: round_half_even_def flip: of_int_minus)
next
  case False
  then have ne: "y \<noteq> of_int \<lfloor>y\<rfloor>" by (metis Ints_of_int)
  then have fl: "\<lfloor>- y\<rfloor> = - \<lfloor>y\<rfloor> - 1"
    by (simp add: floor_minus ceiling_altdef)
  have r: "0 < y - of_int \<lfloor>y\<rfloor>" "y - of_int \<lfloor>y\<rfloor> < 1"
    using ne by (simp add: less_le, linarith)
  show ?thesis
    unfolding round_half_even_def Let_def fl using r
    by (auto simp: algebra_simps)
qed

lemma ilog2_minus: "ilog2 (- x) = ilog2 x"
  by (simp add: ilog2_def)

lemma to_double_minus: "to_double (- x) = js_neg (to_double x)"
  by (simp add: to_double_def ilog2_minus round_half_even_minus Let_def)

lemma js_mul_neg_100: "js_mul (js_neg d) (Fin 100) = js_neg (js_mul d (Fin 100))"
  by (cases d) (simp_all add: to_double_minus)

lemma floor_half: "\<lfloor>1 / 2 :: rat\<rfloor> = 0"
  by (simp add: floor_unique)

lemma amountInCents_neg: "amountInCents (JNum (js_neg d)) = js_neg (amountInCents (JNum d))"
proof -
  obtain p where p: "js_mul d (Fin 100) = p" by simp
  show ?thesis
    by (cases p) (auto simp: amountInCents_def js_mul_neg_100 p Let_def floor_half)
qed


text \<open>The Number nearest to 10.555, and its product with 100, which is 1055.5.\<close>

lemma to_double_10555: "to_double (10555 / 1000) = Fin (1485484189590487 / 140737488355328)"
  by code_simp

lemma to_double_10555_times_100:
  "to_double (37137104739762175 / 35184372088832) = Fin (2111 / 2)"
  by code_simp

lemma amountInCents_10555: "amountInCents (JNum (to_double (10555 / 1000))) = Fin 1056"
  unfolding to_double_10555 by (simp add: amountInCents_def to_double_10555_times_100 Let_def)

lemma amountInCents_minus_10555: "amountInCents (JNum (to_double (- (10555 / 1000)))) = Fin (- 1056)"
proof -
  have "amountInCents (JNum (to_double (- (10555 / 1000)))) =
        js_neg (amountInCents (JNum (to_double (10555 / 1000))))"
    by (simp only: to_double_minus amountInCents_neg)
  then show ?thesis
    by (simp only: amountInCents_10555 js_neg.simps)
qed

lemma js_neg_js_neg: "js_neg (js_neg d) = d"
  by (cases d) simp_all

section \<open>Properties of the transformer\<close>

text \<open>What a successful run of \<open>transformTransaction\<close> returns.\<close>

lemma transformTransaction_Inr:
  assumes "transformTransaction nts toISO t options = Inr r"
  shows "\<exists>isDebit notes payee.
           isDebitTransaction t = Inr isDebit
         \<and> (if truthy (isTransfer (actualTransferInfo t options)) \<and> truthy (ws_from t) \<and> truthy (ws_to t)
            then Inr (ToString nts (ws_from t) @ lit '' -> '' @ ToString nts (ws_to t))
            else buildNotesFromSpec t) = Inr notes
         \<and> buildPayeeName t = Inr payee
         \<and> r = \<lparr>Date = formatDateToYMD toISO (js_or (js_or (ws_date t) (ws_filled t)) (ws_submitted t)),
                 Account = ws_account t, Payee = payee, Notes = JStr notes,
                 Amount = JNum (if isDebit then js_neg (Math_abs (amountInCents (ws_amount t)))
                                else Math_abs (amountInCents (ws_amount t))),
                 u_isTransfer = (if truthy (isTransfer (actualTransferInfo t options))
                                 then Some (JBool True) else None),
                 u_transferToAccount = (if truthy (isTransfer (actualTransferInfo t options))
                                        then Some (toAccount (actualTransferInfo t options)) else None),
                 u_accountId = None, t_category = None\<rparr>"
proof -
  let ?N = "if truthy (isTransfer (actualTransferInfo t options)) \<and> truthy (ws_from t) \<and> truthy (ws_to t)
            then Inr (ToString nts (ws_from t) @ lit '' -> '' @ ToString nts (ws_to t))
            else buildNotesFromSpec t"
  obtain dd where d: "isDebitTransaction t = Inr dd"
    using assms by (cases "isDebitTransaction t") (simp_all add: transformTransaction_def bindE_def)
  obtain nn where n: "?N = Inr nn"
    using assms d
    by (cases ?N) (simp_all add: transformTransaction_def bindE_def Let_def split del: if_split cong: if_weak_cong)
  obtain pp where p: "buildPayeeName t = Inr pp"
    using assms d n
    by (cases "buildPayeeName t") (simp_all add: transformTransaction_def bindE_def Let_def split del: if_split cong: if_weak_cong)
  show ?thesis
    using assms d n p
    by (simp add: transformTransaction_def bindE_def Let_def split del: if_split cong: if_weak_cong) 
qed

lemma isDebit_blank_type:
  "\<not> truthy (ws_type t) \<Longrightarrow> isDebitTransaction t = Inr (js_lt0 (ToNumber (ws_amount t)))"
  by (simp add: isDebitTransaction_def bindE_def js_or_def toLowerCase_def debitTypes_def
        creditTypes_def lit_def)

lemma getPayeeByType_blank: "\<not> truthy ty \<Longrightarrow> getPayeeByType ty = Inr (JStr (lit ''Unknown''))"
  by (simp add: getPayeeByType_def bindE_def js_or_def toLowerCase_def typeMap_def lit_def)

lemma buildPayeeName_blank:
  "\<not> truthy (ws_description t) \<Longrightarrow> \<not> truthy (ws_type t) \<Longrightarrow>
   buildPayeeName t = Inr (JStr (lit ''Unknown''))"
  by (simp add: buildPayeeName_def getPayeeByType_blank bindE_def wealthSimplePayees_def lit_def
        image_iff)



section \<open>The claims\<close>



text \<open>
  Claim C9, as the code has it. The conversion to cents commutes with negation: for every
  Number \<open>d\<close> the cents of \<open>-d\<close> are the negation of the cents of \<open>d\<close> (both are NaN when
  \<open>d\<close> is), so no amount breaks the identity \<^verbatim>\<open>cents(d) == -cents(-d)\<close>; the conversions
  of 10.555 and of -10.555 are 1056 and -1056.
\<close>

theorem amountInCents_negation_symmetry:
  "amountInCents (JNum (js_neg d)) = js_neg (amountInCents (JNum d))
   \<and> amountInCents (JNum d) = js_neg (amountInCents (JNum (js_neg d)))
   \<and> (amountInCents (JNum d) = NaN \<longleftrightarrow> d = NaN)
   \<and> amountInCents (JNum (to_double (10555 / 1000))) = Fin 1056
   \<and> amountInCents (JNum (to_double (- (10555 / 1000)))) = Fin (- 1056)"
proof -
  have nan: "amountInCents (JNum d) = NaN \<longleftrightarrow> d = NaN"
  proof (cases d)
    case (Fin x)
    obtain p where p: "to_double (x * 100) = p" by simp
    have "p \<noteq> NaN" using p by (auto simp: to_double_def Let_def split: if_splits)
    then show ?thesis using Fin p
      by (cases p) (auto simp: amountInCents_def Let_def)
  qed (simp_all add: amountInCents_def)
  show ?thesis
    using nan amountInCents_10555 amountInCents_minus_10555
    by (simp add: amountInCents_neg js_neg_js_neg)
qed

text \<open>
  The claim as it is stated, that some amount \<open>d\<close> has cents different from the negation
  of the cents of \<open>-d\<close>, is false: there is no such Number, under \<^verbatim>\<open>===\<close> none but NaN.
\<close>

theorem amountInCents_asymmetry_counterexample:
  "\<not> (\<exists>d. amountInCents (JNum d) \<noteq> js_neg (amountInCents (JNum (js_neg d))))
   \<and> \<not> (\<exists>d. d \<noteq> NaN \<and> \<not> strict_eq (JNum (amountInCents (JNum d)))
                                    (JNum (js_neg (amountInCents (JNum (js_neg d))))))"
proof -
  have sym: "amountInCents (JNum d) = js_neg (amountInCents (JNum (js_neg d)))" for d
    by (simp add: amountInCents_neg js_neg_js_neg)
  have nan: "d \<noteq> NaN \<Longrightarrow> amountInCents (JNum d) \<noteq> NaN" for d
  proof (cases d)
    case (Fin x)
    obtain p where p: "to_double (x * 100) = p" by simp
    have "p \<noteq> NaN" using p by (auto simp: to_double_def Let_def split: if_splits)
    then show ?thesis using Fin p
      by (cases p) (auto simp: amountInCents_def Let_def)
  qed (simp_all add: amountInCents_def)
  show ?thesis
    using nan by (auto simp add: strict_eq_def sym [symmetric])
qed

lemma list_ex_set: "list_ex P xs \<longleftrightarrow> (\<exists>x \<in> set xs. P x)"
  by (simp add: list_ex_iff)






lemma to_double_5000: "to_double 5000 = Fin 5000" by code_simp
lemma to_double_m5000: "to_double (- 5000) = Fin (- 5000)" 
  using to_double_minus [of 5000] by (simp add: to_double_5000)









text \<open>
  Claim C2, as the code has it. For a record without a stored transfer info,
  \<open>transformTransaction\<close> sets the transfer keys if and only if from and to are both there
  and not empty and a predicate is supplied that holds of both; from and to are not compared
  with one another. The target is \<open>to\<close> when the account of the record is \<open>from\<close>, and
  \<open>from\<close> otherwise. Without the predicate, or with a leg it rejects, the result has no
  transfer key. A record that carries a stored transfer info is marked as that info says.
\<close>

theorem transformTransaction_transfer_detection:
  assumes "transformTransaction nts toISO t options = Inr r"
  shows "(ws_transferInfo t = None \<longrightarrow>
            (u_isTransfer r = Some (JBool True) \<longleftrightarrow>
               truthy (ws_from t) \<and> truthy (ws_to t)
               \<and> (\<exists>p. isAccountMapped options = Some p \<and> p (ws_from t) \<and> p (ws_to t)))
          \<and> (u_isTransfer r = Some (JBool True) \<longrightarrow>
               u_transferToAccount r =
                 Some (if strict_eq (ws_account t) (ws_from t) then ws_to t else ws_from t))
          \<and> (u_isTransfer r \<noteq> Some (JBool True) \<longrightarrow>
               u_isTransfer r = None \<and> u_transferToAccount r = None))
       \<and> (\<forall>i. ws_transferInfo t = Some i \<longrightarrow>
            (if truthy (isTransfer i)
             then u_isTransfer r = Some (JBool True) \<and> u_transferToAccount r = Some (toAccount i)
             else u_isTransfer r = None \<and> u_transferToAccount r = None))"
proof -
  from transformTransaction_Inr [OF assms] have
    k: "u_isTransfer r = (if truthy (isTransfer (actualTransferInfo t options))
                          then Some (JBool True) else None)"
       "u_transferToAccount r = (if truthy (isTransfer (actualTransferInfo t options))
                          then Some (toAccount (actualTransferInfo t options)) else None)"
    by auto
  have a: "ws_transferInfo t = None \<longrightarrow>
            (u_isTransfer r = Some (JBool True) \<longleftrightarrow>
               truthy (ws_from t) \<and> truthy (ws_to t)
               \<and> (\<exists>p. isAccountMapped options = Some p \<and> p (ws_from t) \<and> p (ws_to t)))
          \<and> (u_isTransfer r = Some (JBool True) \<longrightarrow>
               u_transferToAccount r =
                 Some (if strict_eq (ws_account t) (ws_from t) then ws_to t else ws_from t))
          \<and> (u_isTransfer r \<noteq> Some (JBool True) \<longrightarrow>
               u_isTransfer r = None \<and> u_transferToAccount r = None)"
    unfolding k
    by (cases "isAccountMapped options") (auto simp: actualTransferInfo_def detectTransfer_def)
  have b: "\<forall>i. ws_transferInfo t = Some i \<longrightarrow>
            (if truthy (isTransfer i)
             then u_isTransfer r = Some (JBool True) \<and> u_transferToAccount r = Some (toAccount i)
             else u_isTransfer r = None \<and> u_transferToAccount r = None)"
    unfolding k by (auto simp: actualTransferInfo_def)
  show ?thesis using a b by (rule conjI)
qed

lemma buildNotesFromSpec_absent_fields:
  assumes "ws_subheading t = JUndefined" "ws_type t = JUndefined" "ws_email t = JUndefined"
    "ws_message t = JUndefined" "ws_filledQuantity t = JUndefined" "ws_transactionId t = JUndefined"
  shows "buildNotesFromSpec t = Inr []"
  by (simp add: buildNotesFromSpec_def assms bindE_def)

lemma transform_transferTransaction:
  "transformTransaction nts toISO transferTransaction mappedOptions =
     Inr \<lparr>Date = JNull, Account = JStr (lit ''Checking''), Payee = JStr (lit ''Unknown''),
          Notes = JStr (lit ''Checking -> Savings''), Amount = JNum NaN,
          u_isTransfer = Some (JBool True), u_transferToAccount = Some (JStr (lit ''Savings'')),
          u_accountId = None, t_category = None\<rparr>"
proof -
  have f: "ws_date transferTransaction = JUndefined" "ws_filled transferTransaction = JUndefined"
    "ws_submitted transferTransaction = JUndefined"
    "ws_account transferTransaction = JStr (lit ''Checking'')"
    "ws_amount transferTransaction = JUndefined"
    "ws_from transferTransaction = JStr (lit ''Checking'')"
    "ws_to transferTransaction = JStr (lit ''Savings'')"
    "ws_transferInfo transferTransaction = None" "ws_type transferTransaction = JUndefined"
    "ws_description transferTransaction = JUndefined"
    by (simp_all add: transferTransaction_def absentTransaction_def)
  have i: "actualTransferInfo transferTransaction mappedOptions =
             \<lparr>isTransfer = JBool True, toAccount = JStr (lit ''Savings'')\<rparr>"
    by (simp add: actualTransferInfo_def detectTransfer_def f mappedOptions_def strict_eq_def lit_def)
  show ?thesis
    by (simp add: transformTransaction_def i f bindE_def formatDateToYMD_def js_or_def
          isDebit_blank_type buildPayeeName_blank amountInCents_def lit_def)
qed

lemma transform_sameAccountTransfer:
  "transformTransaction nts toISO sameAccountTransfer mappedOptions =
     Inr \<lparr>Date = JNull, Account = JStr (lit ''Checking''), Payee = JStr (lit ''Unknown''),
          Notes = JStr (lit ''Checking -> Checking''), Amount = JNum NaN,
          u_isTransfer = Some (JBool True), u_transferToAccount = Some (JStr (lit ''Checking'')),
          u_accountId = None, t_category = None\<rparr>"
proof -
  have f: "ws_date sameAccountTransfer = JUndefined" "ws_filled sameAccountTransfer = JUndefined"
    "ws_submitted sameAccountTransfer = JUndefined"
    "ws_account sameAccountTransfer = JStr (lit ''Checking'')"
    "ws_amount sameAccountTransfer = JUndefined"
    "ws_from sameAccountTransfer = JStr (lit ''Checking'')"
    "ws_to sameAccountTransfer = JStr (lit ''Checking'')"
    "ws_transferInfo sameAccountTransfer = None" "ws_type sameAccountTransfer = JUndefined"
    "ws_description sameAccountTransfer = JUndefined"
    by (simp_all add: sameAccountTransfer_def absentTransaction_def)
  have i: "actualTransferInfo sameAccountTransfer mappedOptions =
             \<lparr>isTransfer = JBool True, toAccount = JStr (lit ''Checking'')\<rparr>"
    by (simp add: actualTransferInfo_def detectTransfer_def f mappedOptions_def strict_eq_def lit_def)
  show ?thesis
    by (simp add: transformTransaction_def i f bindE_def formatDateToYMD_def js_or_def
          isDebit_blank_type buildPayeeName_blank amountInCents_def lit_def)
qed

lemma transform_movedTransaction:
  "transformTransaction nts toISO movedTransaction noOptions =
     Inr \<lparr>Date = JNull, Account = JStr (lit ''Checking''), Payee = JStr (lit ''Unknown''),
          Notes = JStr [], Amount = JNum NaN,
          u_isTransfer = Some (JBool True), u_transferToAccount = Some (JStr (lit ''Savings'')),
          u_accountId = None, t_category = None\<rparr>"
proof -
  have f: "ws_date movedTransaction = JUndefined" "ws_filled movedTransaction = JUndefined"
    "ws_submitted movedTransaction = JUndefined"
    "ws_account movedTransaction = JStr (lit ''Checking'')"
    "ws_amount movedTransaction = JUndefined"
    "ws_from movedTransaction = JUndefined"
    "ws_to movedTransaction = JUndefined"
    "ws_transferInfo movedTransaction = Some \<lparr>isTransfer = JBool True, toAccount = JStr (lit ''Savings'')\<rparr>" "ws_type movedTransaction = JUndefined"
    "ws_description movedTransaction = JUndefined"
    "ws_subheading movedTransaction = JUndefined" "ws_email movedTransaction = JUndefined"
    "ws_message movedTransaction = JUndefined" "ws_filledQuantity movedTransaction = JUndefined" "ws_transactionId movedTransaction = JUndefined"
    by (simp_all add: movedTransaction_def absentTransaction_def)
  show ?thesis
    by (simp add: transformTransaction_def actualTransferInfo_def f bindE_def formatDateToYMD_def js_or_def
          isDebit_blank_type buildPayeeName_blank amountInCents_def buildNotesFromSpec_absent_fields)
qed

theorem transformTransaction_transfer_detection_witness:
  "ws_transferInfo transferTransaction = None
   \<and> (u_isTransfer
        \<lparr>Date = JNull, Account = JStr (lit ''Checking''), Payee = JStr (lit ''Unknown''),
         Notes = JStr (lit ''Checking -> Savings''), Amount = JNum NaN,
         u_isTransfer = Some (JBool True), u_transferToAccount = Some (JStr (lit ''Savings'')),
         u_accountId = None, t_category = None\<rparr> = Some (JBool True) \<longleftrightarrow>
       truthy (ws_from transferTransaction) \<and> truthy (ws_to transferTransaction)
       \<and> (\<exists>p. isAccountMapped mappedOptions = Some p \<and> p (ws_from transferTransaction)
                \<and> p (ws_to transferTransaction)))
   \<and> ws_transferInfo movedTransaction =
        Some \<lparr>isTransfer = JBool True, toAccount = JStr (lit ''Savings'')\<rparr>
   \<and> (if truthy (isTransfer \<lparr>isTransfer = JBool True, toAccount = JStr (lit ''Savings'')\<rparr>)
       then u_isTransfer
              \<lparr>Date = JNull, Account = JStr (lit ''Checking''), Payee = JStr (lit ''Unknown''),
               Notes = JStr [], Amount = JNum NaN, u_isTransfer = Some (JBool True),
               u_transferToAccount = Some (JStr (lit ''Savings'')),
               u_accountId = None, t_category = None\<rparr> = Some (JBool True)
            \<and> u_transferToAccount
              \<lparr>Date = JNull, Account = JStr (lit ''Checking''), Payee = JStr (lit ''Unknown''),
               Notes = JStr [], Amount = JNum NaN, u_isTransfer = Some (JBool True),
               u_transferToAccount = Some (JStr (lit ''Savings'')),
               u_accountId = None, t_category = None\<rparr> =
              Some (toAccount \<lparr>isTransfer = JBool True, toAccount = JStr (lit ''Savings'')\<rparr>)
       else False)"
proof -
  have h1: "ws_transferInfo transferTransaction = None"
    by (simp add: transferTransaction_def absentTransaction_def)
  have h2: "ws_transferInfo movedTransaction =
        Some \<lparr>isTransfer = JBool True, toAccount = JStr (lit ''Savings'')\<rparr>"
    by (simp add: movedTransaction_def absentTransaction_def)
  note t1 = transformTransaction_transfer_detection
          [OF transform_transferTransaction [of "\<lambda>_. []" "\<lambda>_. None"]]
  note t2 = transformTransaction_transfer_detection
          [OF transform_movedTransaction [of "\<lambda>_. []" "\<lambda>_. None"]]
  from t1 h1 have c1: "u_isTransfer
        \<lparr>Date = JNull, Account = JStr (lit ''Checking''), Payee = JStr (lit ''Unknown''),
         Notes = JStr (lit ''Checking -> Savings''), Amount = JNum NaN,
         u_isTransfer = Some (JBool True), u_transferToAccount = Some (JStr (lit ''Savings'')),
         u_accountId = None, t_category = None\<rparr> = Some (JBool True) \<longleftrightarrow>
       truthy (ws_from transferTransaction) \<and> truthy (ws_to transferTransaction)
       \<and> (\<exists>p. isAccountMapped mappedOptions = Some p \<and> p (ws_from transferTransaction)
                \<and> p (ws_to transferTransaction))"
    by blast
  from t2 h2 have c2: "if truthy (isTransfer \<lparr>isTransfer = JBool True, toAccount = JStr (lit ''Savings'')\<rparr>)
       then u_isTransfer
              \<lparr>Date = JNull, Account = JStr (lit ''Checking''), Payee = JStr (lit ''Unknown''),
               Notes = JStr [], Amount = JNum NaN, u_isTransfer = Some (JBool True),
               u_transferToAccount = Some (JStr (lit ''Savings'')),
               u_accountId = None, t_category = None\<rparr> = Some (JBool True)
            \<and> u_transferToAccount
              \<lparr>Date = JNull, Account = JStr (lit ''Checking''), Payee = JStr (lit ''Unknown''),
               Notes = JStr [], Amount = JNum NaN, u_isTransfer = Some (JBool True),
               u_transferToAccount = Some (JStr (lit ''Savings'')),
               u_accountId = None, t_category = None\<rparr> =
              Some (toAccount \<lparr>isTransfer = JBool True, toAccount = JStr (lit ''Savings'')\<rparr>)
       else u_isTransfer
              \<lparr>Date = JNull, Account = JStr (lit ''Checking''), Payee = JStr (lit ''Unknown''),
               Notes = JStr [], Amount = JNum NaN, u_isTransfer = Some (JBool True),
               u_transferToAccount = Some (JStr (lit ''Savings'')),
               u_accountId = None, t_category = None\<rparr> = None
            \<and> u_transferToAccount
              \<lparr>Date = JNull, Account = JStr (lit ''Checking''), Payee = JStr (lit ''Unknown''),
               Notes = JStr [], Amount = JNum NaN, u_isTransfer = Some (JBool True),
               u_transferToAccount = Some (JStr (lit ''Savings'')),
               u_accountId = None, t_category = None\<rparr> = None"
    by blast
  show ?thesis
    using h1 h2 c1 c2 by simp
qed

text \<open>
  The claim as it is stated asks for from and to to differ. A record whose from and to are
  the same mapped account is marked as a transfer all the same, to that very account.
\<close>

theorem transfer_of_equal_accounts_counterexample:
  "ws_from sameAccountTransfer = ws_to sameAccountTransfer
   \<and> transformTransaction (\<lambda>_. []) (\<lambda>_. None) sameAccountTransfer mappedOptions =
       Inr \<lparr>Date = JNull, Account = JStr (lit ''Checking''), Payee = JStr (lit ''Unknown''),
            Notes = JStr (lit ''Checking -> Checking''), Amount = JNum NaN,
            u_isTransfer = Some (JBool True),
            u_transferToAccount = Some (JStr (lit ''Checking'')),
            u_accountId = None, t_category = None\<rparr>"
proof
  show "ws_from sameAccountTransfer = ws_to sameAccountTransfer"
    by (simp add: sameAccountTransfer_def absentTransaction_def)
  show "transformTransaction (\<lambda>_. []) (\<lambda>_. None) sameAccountTransfer mappedOptions =
       Inr \<lparr>Date = JNull, Account = JStr (lit ''Checking''), Payee = JStr (lit ''Unknown''),
            Notes = JStr (lit ''Checking -> Checking''), Amount = JNum NaN,
            u_isTransfer = Some (JBool True),
            u_transferToAccount = Some (JStr (lit ''Checking'')),
            u_accountId = None, t_category = None\<rparr>"
    by (rule transform_sameAccountTransfer)
qed

end
